theory Spec2Isabelle
  imports Main "HOL-Library.AList"
begin

section \<open>JavaScript values\<close>

text \<open>
  The server stores strokes exactly as it built or loaded them: plain JavaScript values that
  are never validated. They are modelled by the datatype below. An object is the list of its
  own properties in insertion order; numbers are integers (timestamps, layer indices, pixel
  coordinates), so \<open>NaN\<close> and fractions are outside the model.
\<close>

datatype jsval =
    JUndefined
  | JNull
  | JBool bool
  | JNum int
  | JStr string
  | JArr "jsval list"
  | JObj "(string \<times> jsval) list"

datatype js_error = TypeError | SyntaxError

text \<open>Truthiness, as \<open>if (v)\<close>, \<open>!v\<close> and \<open>v || w\<close> read it.\<close>

fun truthy :: "jsval \<Rightarrow> bool" where
  "truthy JUndefined = False"
| "truthy JNull = False"
| "truthy (JBool b) = b"
| "truthy (JNum n) = (n \<noteq> 0)"
| "truthy (JStr s) = (s \<noteq> [])"
| "truthy (JArr _) = True"
| "truthy (JObj _) = True"

text \<open>
  \<open>v.k\<close> for a value that is neither \<open>null\<close> nor \<open>undefined\<close> (reading a property of
  those throws; every caller below rules them out first). A missing property reads as
  \<open>undefined\<close>; the built-in properties of strings and arrays are not modelled.
\<close>

fun get_prop :: "jsval \<Rightarrow> string \<Rightarrow> jsval" where
  "get_prop (JObj kvs) k = (case map_of kvs k of Some v \<Rightarrow> v | None \<Rightarrow> JUndefined)"
| "get_prop _ k = JUndefined"

section \<open>Drawing state (drawing-state.js)\<close>

record DrawingState =
  strokes :: "jsval list"
  undoStack :: "jsval list"

text \<open>
  \<open>constructor(initialStrokes = [])\<close>: the argument is copied when it is an array, and
  anything else (also the omitted argument, \<open>undefined\<close>) gives the empty log.
\<close>

definition DrawingState_new :: "jsval \<Rightarrow> DrawingState" where
  "DrawingState_new initialStrokes =
     \<lparr>strokes = (case initialStrokes of JArr xs \<Rightarrow> xs | _ \<Rightarrow> []), undoStack = []\<rparr>"

text \<open>
  \<open>addStroke\<close> pushes, clears the redo stack and then returns \<open>stroke.id\<close>; reading the
  identifier of \<open>null\<close> or \<open>undefined\<close> throws after the two assignments have been made.
\<close>

definition addStroke :: "jsval \<Rightarrow> DrawingState \<Rightarrow> (js_error + jsval) \<times> DrawingState" where
  "addStroke stroke d =
     (let d' = d\<lparr>strokes := strokes d @ [stroke], undoStack := []\<rparr>
      in (if stroke = JNull \<or> stroke = JUndefined then Inl TypeError
          else Inr (get_prop stroke ''id''), d'))"

text \<open>Both stacks are JavaScript arrays used with \<open>push\<close> and \<open>pop\<close>: the top is the last element.\<close>

definition undoLastStroke :: "DrawingState \<Rightarrow> jsval \<times> DrawingState" where
  "undoLastStroke d =
     (if length (strokes d) = 0 then (JNull, d)
      else let removedStroke = last (strokes d)
           in (removedStroke,
               d\<lparr>strokes := butlast (strokes d), undoStack := undoStack d @ [removedStroke]\<rparr>))"

definition redoLastStroke :: "DrawingState \<Rightarrow> jsval \<times> DrawingState" where
  "redoLastStroke d =
     (if length (undoStack d) = 0 then (JNull, d)
      else let restoredStroke = last (undoStack d)
           in (restoredStroke,
               d\<lparr>strokes := strokes d @ [restoredStroke], undoStack := butlast (undoStack d)\<rparr>))"

definition getState :: "DrawingState \<Rightarrow> jsval list" where
  "getState d = strokes d"

definition clear :: "DrawingState \<Rightarrow> DrawingState" where
  "clear d = d\<lparr>strokes := [], undoStack := []\<rparr>"

definition getStrokeCount :: "DrawingState \<Rightarrow> nat" where
  "getStrokeCount d = length (strokes d)"

definition toJSON :: "DrawingState \<Rightarrow> jsval" where
  "toJSON d = JObj [(''strokes'', JArr (strokes d))]"

definition fromJSON :: "jsval \<Rightarrow> DrawingState" where
  "fromJSON obj =
     (if \<not> truthy obj \<or> \<not> (case get_prop obj ''strokes'' of JArr _ \<Rightarrow> True | _ \<Rightarrow> False)
      then DrawingState_new JUndefined
      else DrawingState_new (get_prop obj ''strokes''))"

section \<open>JSON text\<close>

text \<open>
  The text of a room file is represented by the value it denotes, or by \<open>Malformed\<close> when it
  is not JSON. \<open>JSON.stringify\<close> writes a value without its \<open>undefined\<close> parts: a property
  whose value is \<open>undefined\<close> is left out, and an \<open>undefined\<close> array element is written as
  \<open>null\<close>. \<open>json_clean v\<close> is the value that the text written for \<open>v\<close> denotes.
\<close>

fun json_clean :: "jsval \<Rightarrow> jsval" where
  "json_clean (JArr xs) = JArr (map (\<lambda>x. if x = JUndefined then JNull else json_clean x) xs)"
| "json_clean (JObj kvs) =
     JObj (map (\<lambda>(k, v). (k, json_clean v)) (filter (\<lambda>(k, v). v \<noteq> JUndefined) kvs))"
| "json_clean v = v"

datatype file_text = JsonText jsval | Malformed

definition JSON_stringify :: "jsval \<Rightarrow> file_text" where
  "JSON_stringify v = JsonText (json_clean v)"

definition JSON_parse :: "file_text \<Rightarrow> js_error + jsval" where
  "JSON_parse t = (case t of JsonText v \<Rightarrow> Inr v | Malformed \<Rightarrow> Inl SyntaxError)"

text \<open>The values with no \<open>undefined\<close> inside: the ones a JSON text can denote.\<close>

fun json_value :: "jsval \<Rightarrow> bool" where
  "json_value JUndefined = False"
| "json_value (JArr xs) = list_all json_value xs"
| "json_value (JObj kvs) = list_all (\<lambda>(k, v). json_value v) kvs"
| "json_value v = True"

section \<open>Rooms and their files (rooms.js)\<close>

record user =
  user_id :: string
  user_name :: string
  user_color :: string
  user_layer :: nat

text \<open>
  A JavaScript \<open>Map\<close> keeps its keys in insertion order: \<open>set\<close> replaces the value of a
  key in place or appends a new key (\<open>AList.update\<close>), \<open>delete\<close> is \<open>AList.delete\<close>,
  \<open>get\<close> is \<open>map_of\<close> and \<open>size\<close> is the length.
\<close>

record room =
  users :: "(string \<times> user) list"
  drawingState :: DrawingState

text \<open>
  The state of the server process as far as the room manager sees it: its \<open>rooms\<close> map, the
  rooms whose background \<open>readFile\<close> has not settled yet, and the files on disk.
\<close>

record server =
  rooms :: "(string \<times> room) list"
  pending :: "string list"
  disk :: "(string \<times> file_text) list"

definition RoomManager_new :: "(string \<times> file_text) list \<Rightarrow> server" where
  "RoomManager_new files = \<lparr>rooms = [], pending = [], disk = files\<rparr>"

text \<open>\<open>path.join(__dirname, '../data/rooms')\<close>, relative to the directory of the module.\<close>

definition DATA_DIR :: string where
  "DATA_DIR = ''../data/rooms''"

text \<open>\<open>path.join(DATA_DIR, `${roomId}.json`)\<close>, without the normalisation of dots and slashes.\<close>

definition filePath :: "string \<Rightarrow> string" where
  "filePath roomId = DATA_DIR @ ''/'' @ roomId @ ''.json''"

definition getOrCreateRoom :: "string \<Rightarrow> server \<Rightarrow> room \<times> server" where
  "getOrCreateRoom roomId st =
     (case map_of (rooms st) roomId of
        Some r \<Rightarrow> (r, st)
      | None \<Rightarrow>
          (let r = \<lparr>users = [], drawingState = DrawingState_new JUndefined\<rparr>
           in (r, st\<lparr>rooms := AList.update roomId r (rooms st),
                     pending := pending st @ [roomId]\<rparr>)))"

text \<open>
  The callbacks of the \<open>readFile\<close> promise that \<open>getOrCreateRoom\<close> left behind, run when the
  read settles. A missing file rejects the promise and the \<open>catch\<close> does nothing; a text that
  does not parse is caught and logged; any other text replaces the drawing state of the room
  by \<open>fromJSON\<close> of the parsed value. The code makes the assignment without looking at the
  state the room has by then.
\<close>

definition readFile_settled :: "string \<Rightarrow> server \<Rightarrow> server" where
  "readFile_settled roomId st =
     (if roomId \<notin> set (pending st) then st
      else
        (let st' = st\<lparr>pending := remove1 roomId (pending st)\<rparr>
         in case map_of (disk st) (filePath roomId) of
              None \<Rightarrow> st'
            | Some content \<Rightarrow>
                (case JSON_parse content of
                   Inl err \<Rightarrow> st'
                 | Inr obj \<Rightarrow>
                     st'\<lparr>rooms :=
                       AList.map_entry roomId (\<lambda>r. r\<lparr>drawingState := fromJSON obj\<rparr>) (rooms st')\<rparr>)))"

definition addUser :: "string \<Rightarrow> string \<Rightarrow> user \<Rightarrow> server \<Rightarrow> user \<times> server" where
  "addUser roomId socketId u st =
     (let (r, st') = getOrCreateRoom roomId st
      in (u, st'\<lparr>rooms :=
                AList.map_entry roomId (\<lambda>r. r\<lparr>users := AList.update socketId u (users r)\<rparr>)
                  (rooms st')\<rparr>))"

definition removeUser :: "string \<Rightarrow> string \<Rightarrow> server \<Rightarrow> user option \<times> server" where
  "removeUser roomId socketId st =
     (case map_of (rooms st) roomId of
        None \<Rightarrow> (None, st)
      | Some r \<Rightarrow>
          (case map_of (users r) socketId of
             None \<Rightarrow> (None, st)
           | Some u \<Rightarrow>
               (Some u,
                st\<lparr>rooms :=
                  AList.map_entry roomId (\<lambda>r. r\<lparr>users := AList.delete socketId (users r)\<rparr>)
                    (rooms st)\<rparr>)))"

definition getUsers :: "string \<Rightarrow> server \<Rightarrow> (string \<times> user) list" where
  "getUsers roomId st = (case map_of (rooms st) roomId of Some r \<Rightarrow> users r | None \<Rightarrow> [])"

definition getDrawingState :: "string \<Rightarrow> server \<Rightarrow> DrawingState \<times> server" where
  "getDrawingState roomId st = (let (r, st') = getOrCreateRoom roomId st in (drawingState r, st'))"

definition getRoomCount :: "server \<Rightarrow> nat" where
  "getRoomCount st = length (rooms st)"

text \<open>
  The methods of \<open>DrawingState\<close> change the object that \<open>getDrawingState\<close> returned, which is
  the one the room holds; the model writes the changed state back into the room.
\<close>

definition putDrawingState :: "string \<Rightarrow> DrawingState \<Rightarrow> server \<Rightarrow> server" where
  "putDrawingState roomId d st =
     st\<lparr>rooms := AList.map_entry roomId (\<lambda>r. r\<lparr>drawingState := d\<rparr>) (rooms st)\<rparr>"

text \<open>\<open>roomManager.getDrawingState(roomId).addStroke(stroke)\<close>, as the \<open>drawing\<close> handler calls it.\<close>

definition room_addStroke :: "string \<Rightarrow> jsval \<Rightarrow> server \<Rightarrow> server" where
  "room_addStroke roomId stroke st =
     (let (d, st') = getDrawingState roomId st
      in putDrawingState roomId (snd (addStroke stroke d)) st')"

text \<open>
  \<open>saveRoomState\<close> awaits \<open>mkdir\<close> and \<open>writeFile\<close>; whether each is fulfilled or rejected is
  the file system's answer and an input of the model. A rejection is caught and logged, and
  the file stays as it was. The whole save is one step here: no other handler runs between
  its parts.
\<close>

datatype settled = Fulfilled | Rejected

definition saveRoomState :: "string \<Rightarrow> settled \<Rightarrow> settled \<Rightarrow> server \<Rightarrow> server" where
  "saveRoomState roomId mkdir_result writeFile_result st =
     (case map_of (rooms st) roomId of
        None \<Rightarrow> st
      | Some r \<Rightarrow>
          (if mkdir_result = Rejected then st
           else
             (let content = JSON_stringify (toJSON (drawingState r))
              in if writeFile_result = Rejected then st
                 else st\<lparr>disk := AList.update (filePath roomId) content (disk st)\<rparr>)))"

text \<open>The room's log as a later request finds it.\<close>

definition room_strokes :: "string \<Rightarrow> server \<Rightarrow> jsval list option" where
  "room_strokes roomId st = map_option (\<lambda>r. getState (drawingState r)) (map_of (rooms st) roomId)"

section \<open>Session gateway (server.js)\<close>

text \<open>
  A live segment as it travels: every field is optional on the wire, and a field that the
  payload does not carry reads as \<open>undefined\<close> (\<open>None\<close>).
\<close>

type_synonym point = "int \<times> int"

record segment =
  seg_userId :: "string option"
  seg_points :: "point list option"
  seg_x0 :: "int option"
  seg_y0 :: "int option"
  seg_x1 :: "int option"
  seg_y1 :: "int option"
  seg_color :: "string option"
  seg_size :: "int option"
  seg_tool :: "string option"
  seg_timestamp :: "int option"
  seg_serverTimestamp :: "int option"
  seg_layer :: "nat option"

text \<open>Truthiness of an optional number and of an optional string.\<close>

definition truthy_num :: "int option \<Rightarrow> bool" where
  "truthy_num v = (case v of Some n \<Rightarrow> n \<noteq> 0 | None \<Rightarrow> False)"

definition truthy_str :: "string option \<Rightarrow> bool" where
  "truthy_str v = (case v of Some s \<Rightarrow> s \<noteq> [] | None \<Rightarrow> False)"

datatype message =
    UsersList "user list"
  | State_msg "jsval list" "int option"
  | UserJoined string string string nat
  | UserColor string
  | UserLeft string string string
  | DrawingSegment segment
  | Undo_msg string jsval jsval
  | UndoFailed string
  | Redo_msg string jsval jsval
  | RedoFailed string

text \<open>
  The three ways the server addresses a message: \<open>socket.emit\<close> (the socket of the handler),
  \<open>io.in(roomId).emit\<close> (everyone in the room) and \<open>socket.to(roomId).emit\<close> (everyone in the
  room but the handler's socket).
\<close>

datatype target = ToSocket string | InRoom string | ToOthers string string

datatype effect = Emit target message | SaveRoomState string

text \<open>
  A socket joins its room in the connection handler, which also enters it in the room's
  \<open>users\<close>, and leaves both on disconnect: between handlers the sockets of a room are the
  keys of \<open>users\<close>.
\<close>

definition members :: "string \<Rightarrow> server \<Rightarrow> string list" where
  "members roomId st = map fst (getUsers roomId st)"

fun recipients :: "server \<Rightarrow> target \<Rightarrow> string list" where
  "recipients st (ToSocket socketId) = [socketId]"
| "recipients st (InRoom roomId) = members roomId st"
| "recipients st (ToOthers roomId socketId) = filter (\<lambda>x. x \<noteq> socketId) (members roomId st)"

text \<open>\<open>socket.handshake.query.roomId || 'main'\<close>.\<close>

definition query_roomId :: "string option \<Rightarrow> string" where
  "query_roomId q = (if truthy_str q then (case q of Some r \<Rightarrow> r | None \<Rightarrow> ''main'') else ''main'')"

definition query_userName :: "string option \<Rightarrow> string \<Rightarrow> string" where
  "query_userName q socketId =
     (if truthy_str q then (case q of Some n \<Rightarrow> n | None \<Rightarrow> ''User_'' @ take 6 socketId)
      else ''User_'' @ take 6 socketId)"

text \<open>
  The connection handler. The colour is drawn at random from the palette and is an input
  here. The layer index is the size of the room's \<open>users\<close> map before the newcomer is added.
\<close>

definition on_connection ::
  "string \<Rightarrow> string option \<Rightarrow> string option \<Rightarrow> string \<Rightarrow> server \<Rightarrow> effect list \<times> server" where
  "on_connection socketId q_roomId q_userName userColor st =
     (let roomId = query_roomId q_roomId;
          userName = query_userName q_userName socketId;
          (roomObj, st1) = getOrCreateRoom roomId st;
          layerIndex = length (users roomObj);
          userObj = \<lparr>user_id = socketId, user_name = userName, user_color = userColor,
                     user_layer = layerIndex\<rparr>;
          (u, st2) = addUser roomId socketId userObj st1;
          usersForRoom = getUsers roomId st2;
          (drawingState, st3) = getDrawingState roomId st2
      in ([Emit (InRoom roomId) (UsersList (map snd usersForRoom)),
           Emit (ToSocket socketId) (State_msg (getState drawingState) None),
           Emit (ToOthers roomId socketId) (UserJoined socketId userName userColor (user_layer userObj)),
           Emit (ToSocket socketId) (UserColor userColor),
           Emit (ToSocket socketId) (UsersList (map snd (getUsers roomId st3)))],
          st3))"

text \<open>The other handlers are closures of the connection: they keep its socket and room.\<close>

definition on_disconnect :: "string \<Rightarrow> string \<Rightarrow> server \<Rightarrow> effect list \<times> server" where
  "on_disconnect socketId roomId st =
     (let (removedUser, st') = removeUser roomId socketId st
      in (case removedUser of
            Some u \<Rightarrow> [Emit (ToOthers roomId socketId) (UserLeft socketId (user_name u) (user_color u))]
          | None \<Rightarrow> [],
          st'))"

text \<open>
  The relay of a live segment; \<open>now\<close> is what \<open>Date.now()\<close> returns in the handler. The
  payload is an object here. (For a payload that is no object the first assignment throws,
  the \<open>catch\<close> logs the error and nothing is relayed.)
\<close>

definition on_drawingSegment ::
  "string \<Rightarrow> string \<Rightarrow> int \<Rightarrow> segment \<Rightarrow> server \<Rightarrow> effect list \<times> server" where
  "on_drawingSegment socketId roomId now data st =
     (let u = map_of (getUsers roomId st) socketId;
          data1 = (case u of Some usr \<Rightarrow> data\<lparr>seg_layer := Some (user_layer usr)\<rparr> | None \<Rightarrow> data);
          serverTimestamp = now;
          data2 = (if \<not> truthy_num (seg_timestamp data1)
                   then data1\<lparr>seg_timestamp := Some serverTimestamp\<rparr> else data1);
          data3 = data2\<lparr>seg_serverTimestamp := Some serverTimestamp\<rparr>;
          data4 = data3\<lparr>seg_userId := Some socketId\<rparr>;
          data5 = (if \<not> truthy_str (seg_tool data4)
                   then data4\<lparr>seg_tool := Some ''brush''\<rparr> else data4)
      in ([Emit (ToOthers roomId socketId) (DrawingSegment data5)], st))"

definition on_undo :: "string \<Rightarrow> string \<Rightarrow> int \<Rightarrow> server \<Rightarrow> effect list \<times> server" where
  "on_undo socketId roomId now st =
     (let (drawingState, st1) = getDrawingState roomId st;
          (removedStroke, d') = undoLastStroke drawingState;
          st2 = putDrawingState roomId d' st1
      in if truthy removedStroke
         then ([Emit (InRoom roomId)
                  (Undo_msg socketId (get_prop removedStroke ''id'') (get_prop removedStroke ''userId'')),
                Emit (InRoom roomId) (State_msg (getState d') (Some now)),
                SaveRoomState roomId],
               st2)
         else ([Emit (ToSocket socketId) (UndoFailed ''No strokes to undo'')], st2))"

definition on_redo :: "string \<Rightarrow> string \<Rightarrow> int \<Rightarrow> server \<Rightarrow> effect list \<times> server" where
  "on_redo socketId roomId now st =
     (let (drawingState, st1) = getDrawingState roomId st;
          (restoredStroke, d') = redoLastStroke drawingState;
          st2 = putDrawingState roomId d' st1
      in if truthy restoredStroke
         then ([Emit (InRoom roomId)
                  (Redo_msg socketId restoredStroke (get_prop restoredStroke ''userId'')),
                Emit (InRoom roomId) (State_msg (getState d') (Some now)),
                SaveRoomState roomId],
               st2)
         else ([Emit (ToSocket socketId) (RedoFailed ''No strokes to redo'')], st2))"

section \<open>Client canvas (canvas.js, main.js)\<close>

text \<open>
  A completed stroke as the client reads it from a \<open>state\<close> message. The server stores what
  the \<open>drawing\<close> handler was sent without checking it, so every field may be missing
  (\<open>None\<close>), and an entry of the points array may be \<open>null\<close> or \<open>undefined\<close> (\<open>None\<close>)
  instead of a point. An entry of the snapshot that is no object at all reads like a stroke
  with no field.

  A canvas is what it has been asked to draw since it was last wiped, oldest first. Curve
  drawing and compositing stay outside.
\<close>

record stroke =
  stroke_id :: "string option"
  stroke_userId :: "string option"
  stroke_color :: "string option"
  stroke_lineWidth :: "int option"
  stroke_points :: "point option list option"
  stroke_isEraser :: "bool option"
  stroke_timestamp :: "int option"
  stroke_layer :: "nat option"

datatype draw_op =
    Background
  | Line "point list" "string option" "int option" bool
  | Smooth "point list" string int string

record layerData =
  layer_canvas :: "draw_op list"
  lastUpdate :: int
  lastTimestamp :: int

record CanvasManager =
  container :: bool
  currentSocketId :: "string option"
  ctx :: "draw_op list"
  userLayers :: "(string \<times> layerData) list"
  lineWidth :: int

text \<open>
  \<open>drawStroke\<close> on the main canvas. It reads \<open>points.length\<close> first, which throws when
  there is no points array, and returns for an empty one. Then it walks the points reading
  \<open>points[i].x\<close>, which throws at an entry that is \<open>null\<close> or \<open>undefined\<close>; the line is
  put on the canvas by the \<open>stroke()\<close> call after the walk, so a throw leaves the canvas as
  it was.
\<close>

definition drawStroke ::
  "point option list option \<Rightarrow> string option \<Rightarrow> int option \<Rightarrow> bool \<Rightarrow> CanvasManager
     \<Rightarrow> js_error + CanvasManager" where
  "drawStroke points col width isEraser cm =
     (case points of
        None \<Rightarrow> Inl TypeError
      | Some ps \<Rightarrow>
          if length ps = 0 then Inr cm
          else
            (case those ps of
               None \<Rightarrow> Inl TypeError
             | Some pts \<Rightarrow> Inr (cm\<lparr>ctx := ctx cm @ [Line pts col width isEraser]\<rparr>)))"

text \<open>\<open>drawSmoothStroke\<close> on a given canvas: nothing for fewer than two points.\<close>

definition drawSmoothStroke :: "point list \<Rightarrow> string \<Rightarrow> int \<Rightarrow> string \<Rightarrow> draw_op list \<Rightarrow> draw_op list" where
  "drawSmoothStroke points col sz md cv =
     (if length points < 2 then cv else cv @ [Smooth points col sz md])"

text \<open>
  The \<open>forEach\<close> of \<open>redraw\<close>: \<open>drawStroke(stroke.points, stroke.color, stroke.lineWidth,
  stroke.isEraser || false)\<close> for each stroke in the order of the array. Nothing catches a
  throw of \<open>drawStroke\<close>: it ends the loop, and the strokes after it are not drawn. The
  result says whether the loop threw, and gives the canvas as the loop left it.
\<close>

fun redraw_forEach :: "stroke list \<Rightarrow> CanvasManager \<Rightarrow> js_error option \<times> CanvasManager" where
  "redraw_forEach [] cm = (None, cm)"
| "redraw_forEach (s # ss) cm =
     (case drawStroke (stroke_points s) (stroke_color s) (stroke_lineWidth s)
             (case stroke_isEraser s of Some b \<Rightarrow> b | None \<Rightarrow> False) cm of
        Inl e \<Rightarrow> (Some e, cm)
      | Inr cm' \<Rightarrow> redraw_forEach ss cm')"

text \<open>
  \<open>redraw\<close> wipes the main canvas, paints the background and runs the loop. Without a
  container it does nothing.
\<close>

definition redraw :: "stroke list \<Rightarrow> CanvasManager \<Rightarrow> js_error option \<times> CanvasManager" where
  "redraw ss cm =
     (if container cm then redraw_forEach ss (cm\<lparr>ctx := [Background]\<rparr>) else (None, cm))"

text \<open>
  \<open>wsManager.onStateReceived\<close>: \<open>canvasManager.redraw(data.strokes || [])\<close>, with nothing
  to catch a throw either.
\<close>

definition onStateReceived ::
  "stroke list option \<Rightarrow> CanvasManager \<Rightarrow> js_error option \<times> CanvasManager" where
  "onStateReceived data_strokes cm =
     redraw (case data_strokes of Some ss \<Rightarrow> ss | None \<Rightarrow> []) cm"

definition getUserLayer :: "string \<Rightarrow> int \<Rightarrow> CanvasManager \<Rightarrow> layerData option \<times> CanvasManager" where
  "getUserLayer userId now cm =
     (case map_of (userLayers cm) userId of
        Some ld \<Rightarrow> (Some ld, cm)
      | None \<Rightarrow>
          (if \<not> container cm then (None, cm)
           else
             (let ld = \<lparr>layer_canvas = [], lastUpdate = now, lastTimestamp = 0\<rparr>
              in (Some ld, cm\<lparr>userLayers := AList.update userId ld (userLayers cm)\<rparr>))))"

text \<open>\<open>seg.timestamp || Date.now()\<close>.\<close>

definition segment_timestamp :: "int \<Rightarrow> segment \<Rightarrow> int" where
  "segment_timestamp now seg =
     (case seg_timestamp seg of Some t \<Rightarrow> if t \<noteq> 0 then t else now | None \<Rightarrow> now)"

text \<open>
  The points an accepted segment is drawn with: its point array when that has two points or
  more, else the two end points of the legacy format, each coordinate \<open>|| 0\<close>.
\<close>

definition segment_points :: "segment \<Rightarrow> point list" where
  "segment_points seg =
     (case seg_points seg of
        Some ps \<Rightarrow> if 2 \<le> length ps then ps
                   else [(case seg_x0 seg of Some x \<Rightarrow> x | None \<Rightarrow> 0, case seg_y0 seg of Some y \<Rightarrow> y | None \<Rightarrow> 0),
                         (case seg_x1 seg of Some x \<Rightarrow> x | None \<Rightarrow> 0, case seg_y1 seg of Some y \<Rightarrow> y | None \<Rightarrow> 0)]
      | None \<Rightarrow> [(case seg_x0 seg of Some x \<Rightarrow> x | None \<Rightarrow> 0, case seg_y0 seg of Some y \<Rightarrow> y | None \<Rightarrow> 0),
                  (case seg_x1 seg of Some x \<Rightarrow> x | None \<Rightarrow> 0, case seg_y1 seg of Some y \<Rightarrow> y | None \<Rightarrow> 0)])"

text \<open>
  \<open>drawSegment\<close>. A missing segment and the client's own segments return at once; an author
  that is still \<open>undefined\<close> after \<open>seg.userId || window.currentSocketId\<close> equals the own
  id and has returned with them. The gate compares with \<open>lastTimestamp\<close> only when that is
  truthy: a new layer starts with 0, which stands for "nothing accepted yet". The two
  readings of the clock in one call are taken to agree.
\<close>

definition drawSegment :: "int \<Rightarrow> segment option \<Rightarrow> CanvasManager \<Rightarrow> CanvasManager" where
  "drawSegment now seg_opt cm =
     (case seg_opt of
        None \<Rightarrow> cm
      | Some seg \<Rightarrow>
          (let userId = (if truthy_str (seg_userId seg) then seg_userId seg else currentSocketId cm);
               timestamp = segment_timestamp now seg
           in if userId = currentSocketId cm then cm
              else
                (case userId of
                   None \<Rightarrow> cm
                 | Some uid \<Rightarrow>
                     (let (layer, cm1) = getUserLayer uid now cm
                      in case layer of
                           None \<Rightarrow> cm1
                         | Some ld \<Rightarrow>
                             if lastTimestamp ld \<noteq> 0 \<and> timestamp < lastTimestamp ld then cm1
                             else
                               (let col = (if truthy_str (seg_color seg)
                                           then (case seg_color seg of Some c \<Rightarrow> c | None \<Rightarrow> ''#000000'')
                                           else ''#000000'');
                                    sz = (if truthy_num (seg_size seg)
                                            then (case seg_size seg of Some n \<Rightarrow> n | None \<Rightarrow> lineWidth cm1)
                                          else lineWidth cm1);
                                    isEraser = (seg_tool seg = Some ''eraser'');
                                    ld' = ld\<lparr>lastTimestamp := timestamp,
                                             layer_canvas :=
                                               drawSmoothStroke (segment_points seg) col sz
                                                 (if isEraser then ''eraser'' else ''brush'') (layer_canvas ld),
                                             lastUpdate := now\<rparr>;
                                    cm2 = cm1\<lparr>userLayers := AList.update uid ld' (userLayers cm1)\<rparr>
                                in if isEraser
                                   then cm2\<lparr>ctx := drawSmoothStroke (segment_points seg) col sz ''eraser'' (ctx cm2)\<rparr>
                                   else cm2)))))"

text \<open>
  What \<open>redraw\<close> puts on the canvas for one stroke whose points array is there, not empty
  and made of points only.
\<close>

definition drawn_as :: "stroke \<Rightarrow> draw_op" where
  "drawn_as s =
     Line (case stroke_points s of
             Some ps \<Rightarrow> (case those ps of Some pts \<Rightarrow> pts | None \<Rightarrow> [])
           | None \<Rightarrow> [])
       (stroke_color s) (stroke_lineWidth s)
       (case stroke_isEraser s of Some b \<Rightarrow> b | None \<Rightarrow> False)"

text \<open>
  What an accepted segment puts on its author's layer, for a client whose own brush width
  is \<open>width\<close>: colour \<open>seg.color || '#000000'\<close>, width \<open>seg.size || this.lineWidth\<close>.
\<close>

definition accepted_segment :: "segment \<Rightarrow> int \<Rightarrow> draw_op" where
  "accepted_segment seg width =
     Smooth (segment_points seg)
       (if truthy_str (seg_color seg) then (case seg_color seg of Some c \<Rightarrow> c | None \<Rightarrow> ''#000000'')
        else ''#000000'')
       (if truthy_num (seg_size seg) then (case seg_size seg of Some n \<Rightarrow> n | None \<Rightarrow> width)
        else width)
       (if seg_tool seg = Some ''eraser'' then ''eraser'' else ''brush'')"

section \<open>Example runs\<close>

text \<open>A server started on a disk that holds a saved log \<open>[s2]\<close> for the room \<open>main\<close>.\<close>

definition persisted_room :: server where
  "persisted_room =
     RoomManager_new
       [(filePath ''main'', JsonText (JObj [(''strokes'', JArr [JObj [(''id'', JStr ''s2'')]])]))]"

text \<open>A server started on a disk whose file for the room \<open>main\<close> is not JSON.\<close>

definition damaged_room :: server where
  "damaged_room = RoomManager_new [(filePath ''main'', Malformed)]"

text \<open>A room with two strokes in its log and one undone stroke waiting for a redo.\<close>

definition drawn_room :: server where
  "drawn_room =
     \<lparr>rooms = [(''main'',
         \<lparr>users = [],
          drawingState =
            \<lparr>strokes = [JObj [(''id'', JStr ''s1''), (''layer'', JNum 0)],
                        JObj [(''id'', JStr ''s2''), (''layer'', JNum 1)]],
             undoStack = [JObj [(''id'', JStr ''s3''), (''layer'', JNum 0)]]\<rparr>\<rparr>)],
      pending = [], disk = []\<rparr>"

text \<open>
  Participants \<open>a\<close>, \<open>b\<close> and \<open>c\<close> connect to a new server one after the other, with no
  room named; then \<open>a\<close> disconnects; then \<open>d\<close> connects.
\<close>

definition one_joined :: server where
  "one_joined = snd (on_connection ''a'' None None ''#FF6B6B'' (RoomManager_new []))"

definition three_joined :: server where
  "three_joined =
     snd (on_connection ''c'' None None ''#45B7D1''
       (snd (on_connection ''b'' None None ''#4ECDC4'' one_joined)))"

definition first_left :: server where
  "first_left = snd (on_disconnect ''a'' ''main'' three_joined)"

definition fourth_joined :: server where
  "fourth_joined = snd (on_connection ''d'' None None ''#FFA07A'' first_left)"

text \<open>Two strokes: \<open>sA\<close> of layer 0 with timestamp 10 and \<open>sB\<close> of layer 1 with timestamp 5.\<close>

definition stroke_A :: stroke where
  "stroke_A = \<lparr>stroke_id = Some ''sA'', stroke_userId = Some ''a'', stroke_color = Some ''#FF6B6B'',
                stroke_lineWidth = Some 5, stroke_points = Some [Some (0, 0), Some (4, 4)],
                stroke_isEraser = Some False, stroke_timestamp = Some 10, stroke_layer = Some 0\<rparr>"

definition stroke_B :: stroke where
  "stroke_B = \<lparr>stroke_id = Some ''sB'', stroke_userId = Some ''b'', stroke_color = Some ''#4ECDC4'',
                stroke_lineWidth = Some 5, stroke_points = Some [Some (4, 0), Some (0, 4)],
                stroke_isEraser = Some False, stroke_timestamp = Some 5, stroke_layer = Some 1\<rparr>"

text \<open>A connected client with an empty canvas and no layer yet.\<close>

definition blank_client :: CanvasManager where
  "blank_client = \<lparr>container = True, currentSocketId = Some ''me'', ctx = [Background],
                    userLayers = [], lineWidth = 5\<rparr>"

text \<open>A brush segment of the remote author \<open>a\<close> with timestamp \<open>t\<close>.\<close>

definition segment_at :: "int \<Rightarrow> segment" where
  "segment_at t =
     \<lparr>seg_userId = Some ''a'', seg_points = Some [(0, 0), (2, 1), (4, 4)],
      seg_x0 = None, seg_y0 = None, seg_x1 = None, seg_y1 = None,
      seg_color = Some ''#FF6B6B'', seg_size = Some 5, seg_tool = Some ''brush'',
      seg_timestamp = Some t, seg_serverTimestamp = Some (t + 7), seg_layer = Some 0\<rparr>"

definition after_100 :: CanvasManager where
  "after_100 = drawSegment 1001 (Some (segment_at 100)) blank_client"

section \<open>Auxiliary facts\<close>

lemma json_clean_id: "json_value v \<Longrightarrow> json_clean v = v"
proof (induction v rule: json_clean.induct)
  case (1 xs)
  have "map (\<lambda>x. if x = JUndefined then JNull else json_clean x) xs = map (\<lambda>x. x) xs"
  proof (rule map_cong[OF refl])
    fix x assume x: "x \<in> set xs"
    with "1.prems" have jv: "json_value x" by (simp add: list_all_iff)
    then have "x \<noteq> JUndefined" by auto
    with "1.IH"[OF x] jv show "(if x = JUndefined then JNull else json_clean x) = x" by simp
  qed
  then show ?case by simp
next
  case (2 kvs)
  have all: "\<And>k v. (k, v) \<in> set kvs \<Longrightarrow> json_value v"
    using "2.prems" by (auto simp: list_all_iff)
  have nu: "\<And>k v. (k, v) \<in> set kvs \<Longrightarrow> v \<noteq> JUndefined"
    using all by fastforce
  have f: "filter (\<lambda>(k, v). v \<noteq> JUndefined) kvs = kvs"
    by (rule filter_True) (use nu in auto)
  have "map (\<lambda>(k, v). (k, json_clean v)) kvs = map (\<lambda>x. x) kvs"
  proof (rule map_cong[OF refl])
    fix x assume x: "x \<in> set kvs"
    obtain k v where kv: "x = (k, v)" by (cases x)
    have xf: "x \<in> set (filter (\<lambda>(k, v). v \<noteq> JUndefined) kvs)"
      using x kv nu[of k v] by simp
    have "json_clean v = v"
      using "2.IH"[OF xf] kv all[of k v] x by simp
    then show "(case x of (k, v) \<Rightarrow> (k, json_clean v)) = x" using kv by simp
  qed
  then show ?case using f by simp
qed simp_all

lemma json_clean_strokes:
  "list_all json_value xs \<Longrightarrow> json_clean (JArr xs) = JArr xs"
  using json_clean_id[of "JArr xs"] by simp

lemma map_entry_same:
  "map_of al k = Some r \<Longrightarrow> f r = r \<Longrightarrow> AList.map_entry k f al = al"
  by (induction al) (auto split: if_splits)

lemma update_fresh_key: "k \<notin> set (map fst al) \<Longrightarrow> AList.update k v al = al @ [(k, v)]"
  by (induction al) auto

lemma getOrCreateRoom_absent:
  "map_of (rooms st) roomId = None \<Longrightarrow>
   getOrCreateRoom roomId st =
     (\<lparr>users = [], drawingState = DrawingState_new JUndefined\<rparr>,
      st\<lparr>rooms := AList.update roomId \<lparr>users = [], drawingState = DrawingState_new JUndefined\<rparr> (rooms st),
         pending := pending st @ [roomId]\<rparr>)"
  by (simp add: getOrCreateRoom_def Let_def)

lemma getOrCreateRoom_present:
  "map_of (rooms st) roomId = Some r \<Longrightarrow> getOrCreateRoom roomId st = (r, st)"
  by (simp add: getOrCreateRoom_def)

lemma getDrawingState_present:
  "map_of (rooms st) roomId = Some r \<Longrightarrow> snd (getDrawingState roomId st) = st"
  by (simp add: getDrawingState_def getOrCreateRoom_def)

lemma putDrawingState_same:
  "map_of (rooms st) roomId = Some r \<Longrightarrow> putDrawingState roomId (drawingState r) st = st"
  by (simp add: putDrawingState_def map_entry_same)

lemma room_addStroke_present:
  assumes "map_of (rooms st) roomId = Some r"
  shows "map_of (rooms (room_addStroke roomId s st)) roomId
           = Some (r\<lparr>drawingState := snd (addStroke s (drawingState r))\<rparr>)"
    and "pending (room_addStroke roomId s st) = pending st"
    and "disk (room_addStroke roomId s st) = disk st"
  using assms
  by (simp_all add: room_addStroke_def getDrawingState_def getOrCreateRoom_present
      putDrawingState_def AList.map_of_map_entry)

lemma fold_room_addStroke:
  "map_of (rooms st) roomId = Some r \<Longrightarrow>
   map_of (rooms (fold (room_addStroke roomId) ss st)) roomId
     = Some (r\<lparr>drawingState :=
          (if ss = [] then drawingState r
           else (drawingState r)\<lparr>strokes := strokes (drawingState r) @ ss, undoStack := []\<rparr>)\<rparr>) \<and>
   pending (fold (room_addStroke roomId) ss st) = pending st \<and>
   disk (fold (room_addStroke roomId) ss st) = disk st"
proof (induction ss arbitrary: st r)
  case Nil
  then show ?case by simp
next
  case (Cons s ss)
  let ?r1 = "r\<lparr>drawingState := snd (addStroke s (drawingState r))\<rparr>"
  let ?st1 = "room_addStroke roomId s st"
  have r1: "map_of (rooms ?st1) roomId = Some ?r1"
    and p1: "pending ?st1 = pending st" and d1: "disk ?st1 = disk st"
    using room_addStroke_present[OF Cons.prems] by auto
  show ?case
    using Cons.IH[OF r1] p1 d1 by (simp add: addStroke_def Let_def)
qed

lemma readFile_settled_pending:
  assumes "roomId \<in> set (pending st)" and "map_of (rooms st) roomId = Some r"
  shows "map_of (rooms (readFile_settled roomId st)) roomId =
           Some (case map_of (disk st) (filePath roomId) of
                   None \<Rightarrow> r
                 | Some content \<Rightarrow>
                     (case JSON_parse content of
                        Inl err \<Rightarrow> r
                      | Inr obj \<Rightarrow> r\<lparr>drawingState := fromJSON obj\<rparr>))"
  using assms
  by (simp add: readFile_settled_def Let_def AList.map_of_map_entry split: option.splits sum.splits)

lemma saveRoomState_disk:
  "map_of (rooms st) roomId = Some r \<Longrightarrow>
   map_of (disk (saveRoomState roomId Fulfilled Fulfilled st)) (filePath roomId)
     = Some (JsonText (JObj [(''strokes'', json_clean (JArr (strokes (drawingState r))))]))"
  by (simp add: saveRoomState_def Let_def AList.update_conv' JSON_stringify_def toJSON_def)

lemma restart_load:
  "map_of files (filePath roomId) = Some (JsonText obj) \<Longrightarrow>
   map_of (rooms (readFile_settled roomId (snd (getOrCreateRoom roomId (RoomManager_new files))))) roomId
     = Some \<lparr>users = [], drawingState = fromJSON obj\<rparr>"
  by (simp add: RoomManager_new_def getOrCreateRoom_def readFile_settled_def Let_def
      JSON_parse_def AList.map_of_map_entry)

lemma fromJSON_strokes_array:
  "fromJSON (JObj [(''strokes'', JArr xs)]) = \<lparr>strokes = xs, undoStack = []\<rparr>"
  by (simp add: fromJSON_def DrawingState_new_def)

lemma getUsers_after_join:
  "getUsers roomId (snd (addUser roomId socketId u (snd (getOrCreateRoom roomId st))))
     = AList.update socketId u (getUsers roomId st)"
  by (cases "map_of (rooms st) roomId")
     (simp_all add: addUser_def getOrCreateRoom_def getUsers_def Let_def
        AList.map_of_map_entry AList.update_conv')

lemma users_of_created:
  "users (fst (getOrCreateRoom roomId st)) = getUsers roomId st"
  by (cases "map_of (rooms st) roomId") (simp_all add: getOrCreateRoom_def getUsers_def Let_def)

lemma on_connection_state:
  "snd (on_connection socketId q n col st)
     = snd (addUser (query_roomId q) socketId
              \<lparr>user_id = socketId, user_name = query_userName n socketId, user_color = col,
                 user_layer = length (getUsers (query_roomId q) st)\<rparr>
              (snd (getOrCreateRoom (query_roomId q) st)))"
proof -
  let ?roomId = "query_roomId q"
  let ?u = "\<lparr>user_id = socketId, user_name = query_userName n socketId, user_color = col,
             user_layer = length (getUsers ?roomId st)\<rparr>"
  let ?st2 = "snd (addUser ?roomId socketId ?u (snd (getOrCreateRoom ?roomId st)))"
  have "\<exists>r. map_of (rooms ?st2) ?roomId = Some r"
    by (cases "map_of (rooms st) ?roomId")
       (simp_all add: addUser_def getOrCreateRoom_def Let_def AList.map_of_map_entry AList.update_conv')
  then obtain r where r: "map_of (rooms ?st2) ?roomId = Some r" ..
  have "snd (getDrawingState ?roomId ?st2) = ?st2"
    by (rule getDrawingState_present[OF r])
  then show ?thesis
    by (simp add: on_connection_def Let_def case_prod_beta users_of_created)
qed

lemmas gateway_defs =
  on_connection_def on_disconnect_def query_roomId_def query_userName_def truthy_str_def
  getOrCreateRoom_def addUser_def removeUser_def getUsers_def getDrawingState_def
  RoomManager_new_def DrawingState_new_def getState_def Let_def

lemmas scenario_defs =
  fourth_joined_def first_left_def three_joined_def one_joined_def

lemma three_joined_layers:
  "map (\<lambda>(k, u). (k, user_layer u)) (getUsers ''main'' three_joined)
     = [(''a'', 0), (''b'', 1), (''c'', 2)]"
  by (simp add: scenario_defs gateway_defs)

lemma fourth_joined_layers:
  "map (\<lambda>(k, u). (k, user_layer u)) (getUsers ''main'' fourth_joined)
     = [(''b'', 1), (''c'', 2), (''d'', 2)]"
  by (simp add: scenario_defs gateway_defs)

lemma those_all_points: "None \<notin> set ps \<Longrightarrow> \<exists>pts. those ps = Some pts"
proof (induction ps)
  case Nil
  show ?case by simp
next
  case (Cons p ps)
  from Cons.prems obtain y where y: "p = Some y" by (cases p) auto
  from Cons.prems have "None \<notin> set ps" by simp
  from Cons.IH[OF this] obtain pts where "those ps = Some pts" ..
  with y show ?case by simp
qed

lemma drawStroke_points:
  assumes "stroke_points s = Some ps" and "None \<notin> set ps"
  shows "drawStroke (stroke_points s) (stroke_color s) (stroke_lineWidth s)
           (case stroke_isEraser s of Some b \<Rightarrow> b | None \<Rightarrow> False) cm
         = Inr (if ps = [] then cm else cm\<lparr>ctx := ctx cm @ [drawn_as s]\<rparr>)"
proof -
  from those_all_points[OF assms(2)] obtain pts where "those ps = Some pts" ..
  with assms(1) show ?thesis
    by (simp add: drawStroke_def drawn_as_def)
qed

lemma redraw_forEach_points:
  "\<forall>s\<in>set ss. \<exists>ps. stroke_points s = Some ps \<and> None \<notin> set ps \<Longrightarrow>
   redraw_forEach ss cm
     = (None, cm\<lparr>ctx := ctx cm @ map drawn_as (filter (\<lambda>s. stroke_points s \<noteq> Some []) ss)\<rparr>)"
proof (induction ss arbitrary: cm)
  case Nil
  show ?case by simp
next
  case (Cons s ss)
  from Cons.prems obtain ps where ps: "stroke_points s = Some ps" "None \<notin> set ps"
    by auto
  have rest: "\<forall>s\<in>set ss. \<exists>ps. stroke_points s = Some ps \<and> None \<notin> set ps"
    using Cons.prems by simp
  show ?case
    using drawStroke_points[OF ps, of cm] Cons.IH[OF rest] ps(1)
    by simp
qed

lemma getUserLayer_present:
  "map_of (userLayers cm) uid = Some ld \<Longrightarrow> getUserLayer uid now cm = (Some ld, cm)"
  by (simp add: getUserLayer_def)

lemma segment_points_two: "2 \<le> length (segment_points seg)"
  by (simp add: segment_points_def split: option.splits)

lemmas client_defs =
  drawSegment_def getUserLayer_def segment_timestamp_def segment_points_def drawSmoothStroke_def
  truthy_str_def truthy_num_def segment_at_def blank_client_def accepted_segment_def
  after_100_def Let_def

lemma after_100_layer:
  "map_of (userLayers after_100) ''a''
     = Some \<lparr>layer_canvas = [accepted_segment (segment_at 100) 5],
             lastUpdate = 1001, lastTimestamp = 100\<rparr>"
  by (simp add: client_defs)

lemma gate_scenario:
  "drawSegment 1002 (Some (segment_at 80)) after_100 = after_100 \<and>
   map_of (userLayers
      (drawSegment 1003 (Some (segment_at 120))
         (drawSegment 1002 (Some (segment_at 80)) after_100))) ''a''
     = Some \<lparr>layer_canvas = [accepted_segment (segment_at 100) 5,
                              accepted_segment (segment_at 120) 5],
             lastUpdate = 1003, lastTimestamp = 120\<rparr>"
  by (simp add: client_defs)

section \<open>Hydration of a new room\<close>

text \<open>
  Claim C1, as the code has it. When a room is created and strokes \<open>ss\<close> are appended
  before the background read settles, the log afterwards is \<open>ss\<close> only if the room has no
  file or its text does not parse. If the text parses, the log is whatever \<open>fromJSON\<close>
  makes of it, and the appended strokes are gone: the assignment in the \<open>then\<close> callback
  is unconditional.
\<close>

theorem hydration_replaces_log:
  assumes "map_of (rooms st) roomId = None"
  shows "room_strokes roomId
           (readFile_settled roomId
              (fold (room_addStroke roomId) ss (snd (getOrCreateRoom roomId st))))
         = Some (case map_of (disk st) (filePath roomId) of
                   None \<Rightarrow> ss
                 | Some content \<Rightarrow>
                     (case JSON_parse content of
                        Inl err \<Rightarrow> ss
                      | Inr obj \<Rightarrow> strokes (fromJSON obj)))"
proof -
  let ?r0 = "\<lparr>users = [], drawingState = DrawingState_new JUndefined\<rparr>"
  let ?st1 = "snd (getOrCreateRoom roomId st)"
  let ?st2 = "fold (room_addStroke roomId) ss ?st1"
  have r1: "map_of (rooms ?st1) roomId = Some ?r0"
    and p1: "roomId \<in> set (pending ?st1)" and d1: "disk ?st1 = disk st"
    using assms by (simp_all add: getOrCreateRoom_absent AList.update_conv')
  from fold_room_addStroke[OF r1, of ss]
  obtain r2 where r2: "map_of (rooms ?st2) roomId = Some r2"
    and s2: "strokes (drawingState r2) = ss"
    and p2: "pending ?st2 = pending ?st1" and d2: "disk ?st2 = disk ?st1"
    by (cases "ss = []") (auto simp: DrawingState_new_def)
  have p2': "roomId \<in> set (pending ?st2)" using p1 p2 by simp
  show ?thesis
    using readFile_settled_pending[OF p2' r2] s2 d1 d2
    by (simp add: room_strokes_def getState_def split: option.splits sum.splits)
qed

theorem hydration_replaces_log_witness:
  "map_of (rooms damaged_room) ''main'' = None \<and>
   room_strokes ''main''
     (readFile_settled ''main''
        (fold (room_addStroke ''main'') [JObj [(''id'', JStr ''s1'')]]
           (snd (getOrCreateRoom ''main'' damaged_room))))
   = Some [JObj [(''id'', JStr ''s1'')]]"
proof -
  have h: "map_of (rooms damaged_room) ''main'' = None"
    by (simp add: damaged_room_def RoomManager_new_def)
  show ?thesis
    using h hydration_replaces_log[OF h, of "[JObj [(''id'', JStr ''s1'')]]"]
    by (simp add: damaged_room_def RoomManager_new_def JSON_parse_def)
qed

text \<open>
  The claim as stated fails: the room \<open>main\<close> has a saved log \<open>[s2]\<close>, the stroke \<open>s1\<close> is
  appended while the read is in flight, and after the read settles the log is \<open>[s2]\<close>,
  not \<open>[s1]\<close>.
\<close>

theorem hydration_discard_counterexample:
  "room_strokes ''main''
     (readFile_settled ''main''
        (room_addStroke ''main'' (JObj [(''id'', JStr ''s1'')])
           (snd (getOrCreateRoom ''main'' persisted_room))))
     = Some [JObj [(''id'', JStr ''s2'')]] \<and>
   room_strokes ''main''
     (readFile_settled ''main''
        (room_addStroke ''main'' (JObj [(''id'', JStr ''s1'')])
           (snd (getOrCreateRoom ''main'' persisted_room))))
     \<noteq> Some [JObj [(''id'', JStr ''s1'')]]"
  by (simp add: persisted_room_def RoomManager_new_def getOrCreateRoom_def room_addStroke_def
      getDrawingState_def putDrawingState_def addStroke_def readFile_settled_def Let_def
      JSON_parse_def fromJSON_def DrawingState_new_def room_strokes_def getState_def)

section \<open>Layer indices\<close>

text \<open>
  Claim C2, as the code has it. The layer index given to a newcomer is the number of
  participants the room holds at that moment. While nobody has left (the participants carry
  the indices \<open>0, \<dots>, n - 1\<close>) the newcomer gets \<open>n\<close>, above all indices given so far. After a
  departure the count drops and an index comes back: three participants join with 0, 1 and
  2, the first leaves, and the fourth gets 2, the index the third still holds.
\<close>

theorem layer_is_participant_count:
  "map_of (getUsers (query_roomId q) (snd (on_connection socketId q n col st))) socketId
     = Some \<lparr>user_id = socketId, user_name = query_userName n socketId, user_color = col,
             user_layer = length (getUsers (query_roomId q) st)\<rparr> \<and>
   (map (\<lambda>(k, u). user_layer u) (getUsers (query_roomId q) st)
        = [0..<length (getUsers (query_roomId q) st)] \<and>
    socketId \<notin> set (map fst (getUsers (query_roomId q) st)) \<longrightarrow>
      map (\<lambda>(k, u). user_layer u) (getUsers (query_roomId q) (snd (on_connection socketId q n col st)))
        = [0..<Suc (length (getUsers (query_roomId q) st))]) \<and>
   map (\<lambda>(k, u). (k, user_layer u)) (getUsers ''main'' three_joined)
     = [(''a'', 0), (''b'', 1), (''c'', 2)] \<and>
   map (\<lambda>(k, u). (k, user_layer u)) (getUsers ''main'' fourth_joined)
     = [(''b'', 1), (''c'', 2), (''d'', 2)]"
  by (simp add: on_connection_state getUsers_after_join AList.update_conv' update_fresh_key
      three_joined_layers fourth_joined_layers)

theorem layer_is_participant_count_witness:
  "map (\<lambda>(k, u). user_layer u) (getUsers (query_roomId None) three_joined)
     = [0..<length (getUsers (query_roomId None) three_joined)] \<and>
   ''d'' \<notin> set (map fst (getUsers (query_roomId None) three_joined)) \<and>
   map (\<lambda>(k, u). user_layer u)
     (getUsers (query_roomId None) (snd (on_connection ''d'' None None ''#FFA07A'' three_joined)))
     = [0, 1, 2, 3]"
proof -
  have h: "map (\<lambda>(k, u). user_layer u) (getUsers (query_roomId None) three_joined)
             = [0..<length (getUsers (query_roomId None) three_joined)] \<and>
           ''d'' \<notin> set (map fst (getUsers (query_roomId None) three_joined))"
    by (simp add: scenario_defs gateway_defs)
  have n: "length (getUsers (query_roomId None) three_joined) = 3"
    by (simp add: scenario_defs gateway_defs)
  show ?thesis
    using h n layer_is_participant_count[of None "''d''" None "''#FFA07A''" three_joined]
    by (simp add: upt_rec)
qed

text \<open>
  The claim as stated fails in its own scenario: after \<open>a\<close>, \<open>b\<close> and \<open>c\<close> have joined and
  \<open>a\<close> has left, \<open>d\<close> receives the layer index 2, which \<open>c\<close> still holds, and not 3.
\<close>

theorem layer_reuse_counterexample:
  "map_option user_layer (map_of (getUsers ''main'' fourth_joined) ''c'') = Some 2 \<and>
   map_option user_layer (map_of (getUsers ''main'' fourth_joined) ''d'') = Some 2 \<and>
   map_option user_layer (map_of (getUsers ''main'' fourth_joined) ''d'') \<noteq> Some 3"
  by (simp add: scenario_defs gateway_defs)

section \<open>Redrawing a snapshot\<close>

text \<open>
  Claim C3, as the code has it, for a snapshot in which every stroke carries a points array
  whose entries are all points. On such a \<open>state\<close> message a client whose canvas has a
  container wipes the main canvas and draws the strokes in the order in which the snapshot
  lists them, leaving out those whose points array is empty; nothing throws, and nothing
  else of the client changes. Neither the timestamp nor the layer index of a stroke is
  read. (A snapshot with a stroke that lacks its points array, or has a \<open>null\<close> among its
  points, is outside this statement.)
\<close>

theorem redraw_in_snapshot_order:
  assumes "container cm"
    and "\<forall>s\<in>set ss. \<exists>ps. stroke_points s = Some ps \<and> None \<notin> set ps"
  shows "onStateReceived (Some ss) cm
           = (None,
              cm\<lparr>ctx := Background # map drawn_as (filter (\<lambda>s. stroke_points s \<noteq> Some []) ss)\<rparr>)"
  using assms(1) redraw_forEach_points[OF assms(2), of "cm\<lparr>ctx := [Background]\<rparr>"]
  by (simp add: onStateReceived_def redraw_def)

theorem redraw_in_snapshot_order_witness:
  "container blank_client \<and>
   stroke_points stroke_B = Some [Some (4, 0), Some (0, 4)] \<and>
   stroke_points stroke_A = Some [Some (0, 0), Some (4, 4)] \<and>
   onStateReceived (Some [stroke_B, stroke_A]) blank_client
     = (None,
        blank_client\<lparr>ctx := [Background,
                              Line [(4, 0), (0, 4)] (Some ''#4ECDC4'') (Some 5) False,
                              Line [(0, 0), (4, 4)] (Some ''#FF6B6B'') (Some 5) False]\<rparr>)"
proof -
  have h1: "container blank_client" by (simp add: blank_client_def)
  have h2: "\<forall>s\<in>set [stroke_B, stroke_A]. \<exists>ps. stroke_points s = Some ps \<and> None \<notin> set ps"
    by (simp add: stroke_A_def stroke_B_def)
  show ?thesis
    using h1 redraw_in_snapshot_order[OF h1 h2]
    by (simp add: stroke_A_def stroke_B_def drawn_as_def)
qed

text \<open>
  The claim as stated fails: for the snapshot \<open>[sA, sB]\<close>, where \<open>sB\<close> has the smaller
  timestamp, the canvas shows \<open>sA\<close> drawn first and \<open>sB\<close> drawn over it.
\<close>

theorem redraw_order_counterexample:
  "stroke_timestamp stroke_A = Some 10 \<and> stroke_layer stroke_A = Some 0 \<and>
   stroke_timestamp stroke_B = Some 5 \<and> stroke_layer stroke_B = Some 1 \<and>
   fst (onStateReceived (Some [stroke_A, stroke_B]) blank_client) = None \<and>
   ctx (snd (onStateReceived (Some [stroke_A, stroke_B]) blank_client))
     = [Background,
        Line [(0, 0), (4, 4)] (Some ''#FF6B6B'') (Some 5) False,
        Line [(4, 0), (0, 4)] (Some ''#4ECDC4'') (Some 5) False] \<and>
   ctx (snd (onStateReceived (Some [stroke_A, stroke_B]) blank_client))
     \<noteq> [Background,
        Line [(4, 0), (0, 4)] (Some ''#4ECDC4'') (Some 5) False,
        Line [(0, 0), (4, 4)] (Some ''#FF6B6B'') (Some 5) False]"
  by (simp add: stroke_A_def stroke_B_def blank_client_def onStateReceived_def redraw_def
      drawStroke_def)

section \<open>Undo and redo on the stroke log\<close>

text \<open>
  Claim C4. For every drawing state and every stroke \<open>s\<close>, undoing right after appending \<open>s\<close>
  returns \<open>s\<close> itself, leaves the log exactly as it was before the append (so a stroke that
  was not in the log before is not in it afterwards), and leaves \<open>s\<close> as the one entry of the
  redo stack.
\<close>

theorem undo_after_append:
  "fst (undoLastStroke (snd (addStroke s d))) = s \<and>
   strokes (snd (undoLastStroke (snd (addStroke s d)))) = strokes d \<and>
   (s \<notin> set (strokes d) \<longrightarrow> s \<notin> set (strokes (snd (undoLastStroke (snd (addStroke s d)))))) \<and>
   undoStack (snd (undoLastStroke (snd (addStroke s d)))) = [s]"
  by (simp add: addStroke_def undoLastStroke_def Let_def)

theorem undo_after_append_witness:
  "fst (undoLastStroke (snd (addStroke (JObj [(''id'', JStr ''s2'')])
        \<lparr>strokes = [JObj [(''id'', JStr ''s1'')]], undoStack = [JObj [(''id'', JStr ''s0'')]]\<rparr>)))
     = JObj [(''id'', JStr ''s2'')] \<and>
   strokes (snd (undoLastStroke (snd (addStroke (JObj [(''id'', JStr ''s2'')])
        \<lparr>strokes = [JObj [(''id'', JStr ''s1'')]], undoStack = [JObj [(''id'', JStr ''s0'')]]\<rparr>))))
     = [JObj [(''id'', JStr ''s1'')]] \<and>
   JObj [(''id'', JStr ''s2'')] \<notin> set (strokes (snd (undoLastStroke (snd (addStroke (JObj [(''id'', JStr ''s2'')])
        \<lparr>strokes = [JObj [(''id'', JStr ''s1'')]], undoStack = [JObj [(''id'', JStr ''s0'')]]\<rparr>))))) \<and>
   undoStack (snd (undoLastStroke (snd (addStroke (JObj [(''id'', JStr ''s2'')])
        \<lparr>strokes = [JObj [(''id'', JStr ''s1'')]], undoStack = [JObj [(''id'', JStr ''s0'')]]\<rparr>))))
     = [JObj [(''id'', JStr ''s2'')]]"
  using undo_after_append [of "JObj [(''id'', JStr ''s2'')]"
      "\<lparr>strokes = [JObj [(''id'', JStr ''s1'')]], undoStack = [JObj [(''id'', JStr ''s0'')]]\<rparr>"]
  by simp

text \<open>
  Claim C5. In every drawing state whose redo stack is not empty, appending a stroke empties
  the redo stack, and a redo right after it returns \<open>null\<close> (nothing to redo) and changes
  nothing.
\<close>

theorem append_clears_redo:
  "undoStack d \<noteq> [] \<Longrightarrow>
   undoStack (snd (addStroke s d)) = [] \<and>
   redoLastStroke (snd (addStroke s d)) = (JNull, snd (addStroke s d))"
  by (simp add: addStroke_def redoLastStroke_def Let_def)

theorem append_clears_redo_witness:
  "undoStack (snd (undoLastStroke \<lparr>strokes = [JStr ''s1''], undoStack = []\<rparr>)) \<noteq> [] \<and>
   undoStack (snd (addStroke (JStr ''s2'') (snd (undoLastStroke \<lparr>strokes = [JStr ''s1''], undoStack = []\<rparr>)))) = [] \<and>
   redoLastStroke (snd (addStroke (JStr ''s2'') (snd (undoLastStroke \<lparr>strokes = [JStr ''s1''], undoStack = []\<rparr>))))
     = (JNull, snd (addStroke (JStr ''s2'') (snd (undoLastStroke \<lparr>strokes = [JStr ''s1''], undoStack = []\<rparr>))))"
proof -
  have h: "undoStack (snd (undoLastStroke \<lparr>strokes = [JStr ''s1''], undoStack = []\<rparr>)) \<noteq> []"
    by (simp add: undoLastStroke_def Let_def)
  show ?thesis
    using h append_clears_redo [OF h, of "JStr ''s2''"] by simp
qed

text \<open>
  Claim C6. In a room whose log is empty, \<open>undoLastStroke\<close> returns \<open>null\<close> and changes
  nothing, and the \<open>undo\<close> handler leaves the server as it was and emits one message,
  \<open>undoFailed\<close>, addressed to the requesting socket alone. The same holds for redo when the
  redo stack is empty. A message addressed to a socket reaches that socket and no other.
\<close>

theorem nothing_to_undo_or_redo:
  assumes "map_of (rooms st) roomId = Some r"
  shows "(strokes (drawingState r) = [] \<longrightarrow>
            undoLastStroke (drawingState r) = (JNull, drawingState r) \<and>
            on_undo socketId roomId now st
              = ([Emit (ToSocket socketId) (UndoFailed ''No strokes to undo'')], st)) \<and>
         (undoStack (drawingState r) = [] \<longrightarrow>
            redoLastStroke (drawingState r) = (JNull, drawingState r) \<and>
            on_redo socketId roomId now st
              = ([Emit (ToSocket socketId) (RedoFailed ''No strokes to redo'')], st)) \<and>
         recipients st (ToSocket socketId) = [socketId]"
  using assms putDrawingState_same[OF assms]
  by (simp add: on_undo_def on_redo_def undoLastStroke_def redoLastStroke_def
      getDrawingState_def getOrCreateRoom_present)

theorem nothing_to_undo_or_redo_witness:
  "map_of (rooms one_joined) ''main''
     = Some \<lparr>users = [(''a'', \<lparr>user_id = ''a'', user_name = ''User_a'', user_color = ''#FF6B6B'',
                               user_layer = 0\<rparr>)],
             drawingState = \<lparr>strokes = [], undoStack = []\<rparr>\<rparr> \<and>
   on_undo ''a'' ''main'' 1000 one_joined
     = ([Emit (ToSocket ''a'') (UndoFailed ''No strokes to undo'')], one_joined) \<and>
   on_redo ''a'' ''main'' 1000 one_joined
     = ([Emit (ToSocket ''a'') (RedoFailed ''No strokes to redo'')], one_joined) \<and>
   recipients one_joined (ToSocket ''a'') = [''a'']"
proof -
  have h: "map_of (rooms one_joined) ''main''
     = Some \<lparr>users = [(''a'', \<lparr>user_id = ''a'', user_name = ''User_a'', user_color = ''#FF6B6B'',
                               user_layer = 0\<rparr>)],
             drawingState = \<lparr>strokes = [], undoStack = []\<rparr>\<rparr>"
    by (simp add: one_joined_def gateway_defs)
  show ?thesis
    using h nothing_to_undo_or_redo[OF h, of "''a''" 1000] by simp
qed

section \<open>Live segments\<close>

text \<open>
  Claim C7. On the layer of a remote author whose gate holds a timestamp (\<open>lastTimestamp\<close>
  is not the initial 0), a segment with a smaller timestamp leaves the client exactly as it
  was. Every other segment is drawn on the layer and sets the gate to its own timestamp,
  which is not 0 unless the clock reads 0. From a client without layers, segments of one
  author with the timestamps 100, 80 and 120 leave the first and the third on the layer,
  and the gate at 120.
\<close>

theorem ordering_gate:
  assumes "seg_userId seg = Some uid" and "uid \<noteq> []" and "currentSocketId cm \<noteq> Some uid"
    and "map_of (userLayers cm) uid = Some ld"
  shows "(lastTimestamp ld \<noteq> 0 \<and> segment_timestamp now seg < lastTimestamp ld \<longrightarrow>
            drawSegment now (Some seg) cm = cm) \<and>
         (\<not> (lastTimestamp ld \<noteq> 0 \<and> segment_timestamp now seg < lastTimestamp ld) \<longrightarrow>
            map_of (userLayers (drawSegment now (Some seg) cm)) uid
              = Some \<lparr>layer_canvas = layer_canvas ld @ [accepted_segment seg (lineWidth cm)],
                      lastUpdate = now,
                      lastTimestamp = segment_timestamp now seg\<rparr>) \<and>
         (now \<noteq> 0 \<longrightarrow> segment_timestamp now seg \<noteq> 0) \<and>
         drawSegment 1002 (Some (segment_at 80)) after_100 = after_100 \<and>
         map_of (userLayers
            (drawSegment 1003 (Some (segment_at 120))
               (drawSegment 1002 (Some (segment_at 80)) after_100))) ''a''
           = Some \<lparr>layer_canvas = [accepted_segment (segment_at 100) 5,
                                    accepted_segment (segment_at 120) 5],
                   lastUpdate = 1003, lastTimestamp = 120\<rparr>"
proof -
  have u: "(if truthy_str (seg_userId seg) then seg_userId seg else currentSocketId cm) = Some uid"
    using assms(1,2) by (simp add: truthy_str_def)
  have ne: "Some uid \<noteq> currentSocketId cm" using assms(3) by auto
  have two: "\<not> length (segment_points seg) < 2"
    using segment_points_two[of seg] by simp
  have gate: "(lastTimestamp ld \<noteq> 0 \<and> segment_timestamp now seg < lastTimestamp ld \<longrightarrow>
            drawSegment now (Some seg) cm = cm) \<and>
         (\<not> (lastTimestamp ld \<noteq> 0 \<and> segment_timestamp now seg < lastTimestamp ld) \<longrightarrow>
            map_of (userLayers (drawSegment now (Some seg) cm)) uid
              = Some \<lparr>layer_canvas = layer_canvas ld @ [accepted_segment seg (lineWidth cm)],
                      lastUpdate = now,
                      lastTimestamp = segment_timestamp now seg\<rparr>)"
    using u ne two getUserLayer_present[OF assms(4), of now]
    by (simp add: drawSegment_def Let_def drawSmoothStroke_def accepted_segment_def
        AList.update_conv')
  have armed: "now \<noteq> 0 \<longrightarrow> segment_timestamp now seg \<noteq> 0"
    by (simp add: segment_timestamp_def split: option.splits)
  from gate armed gate_scenario show ?thesis
    by blast
qed

theorem ordering_gate_witness:
  "seg_userId (segment_at 80) = Some ''a'' \<and> ''a'' \<noteq> [] \<and>
   currentSocketId after_100 \<noteq> Some ''a'' \<and>
   map_of (userLayers after_100) ''a''
     = Some \<lparr>layer_canvas = [accepted_segment (segment_at 100) 5],
             lastUpdate = 1001, lastTimestamp = 100\<rparr> \<and>
   segment_timestamp 1002 (segment_at 80) < 100 \<and>
   drawSegment 1002 (Some (segment_at 80)) after_100 = after_100"
proof -
  have h1: "seg_userId (segment_at 80) = Some ''a''" by (simp add: segment_at_def)
  have h2: "''a'' \<noteq> []" by simp
  have h3: "currentSocketId after_100 \<noteq> Some ''a''" by (simp add: client_defs)
  have h5: "segment_timestamp 1002 (segment_at 80) < 100"
    by (simp add: segment_timestamp_def segment_at_def)
  show ?thesis
    using h1 h3 h5 after_100_layer ordering_gate[OF h1 h2 h3 after_100_layer, of 1002]
    by simp
qed

text \<open>
  Claim C8. Whatever the payload and whoever is in the room, the handler relays one
  segment, addressed to everybody in the room but the sender. The relayed segment carries
  the sender's socket id as author whatever the payload said, the server's clock reading as
  receipt timestamp, the tool of the payload or \<open>brush\<close> when the payload names none, and
  the payload's points, colour and width. The server state is untouched.
\<close>

theorem segment_relay:
  "\<exists>d. on_drawingSegment socketId roomId now data st
           = ([Emit (ToOthers roomId socketId) (DrawingSegment d)], st) \<and>
        seg_userId d = Some socketId \<and>
        seg_serverTimestamp d = Some now \<and>
        seg_tool d = (if truthy_str (seg_tool data) then seg_tool data else Some ''brush'') \<and>
        seg_points d = seg_points data \<and> seg_color d = seg_color data \<and>
        seg_size d = seg_size data \<and>
        set (recipients st (ToOthers roomId socketId)) = set (members roomId st) - {socketId}"
  by (auto simp: on_drawingSegment_def Let_def split: option.splits)

section \<open>Saving and loading a room\<close>

text \<open>
  Claim C9. Take a room whose strokes are JSON values, save it with both file operations
  fulfilled, and start a new process on the same disk. When the room is created there and
  its background read has settled, its log is the saved log, stroke for stroke in the same
  order.
\<close>

theorem save_load_roundtrip:
  assumes "map_of (rooms st) roomId = Some r"
    and "list_all json_value (strokes (drawingState r))"
  shows "room_strokes roomId
           (readFile_settled roomId
              (snd (getOrCreateRoom roomId
                 (RoomManager_new (disk (saveRoomState roomId Fulfilled Fulfilled st))))))
         = Some (strokes (drawingState r))"
proof -
  have "map_of (disk (saveRoomState roomId Fulfilled Fulfilled st)) (filePath roomId)
          = Some (JsonText (JObj [(''strokes'', JArr (strokes (drawingState r)))]))"
    using saveRoomState_disk[OF assms(1)] json_clean_strokes[OF assms(2)] by simp
  from restart_load[OF this] show ?thesis
    by (simp add: room_strokes_def getState_def fromJSON_strokes_array)
qed

theorem save_load_roundtrip_witness:
  "map_of (rooms drawn_room) ''main''
     = Some \<lparr>users = [],
             drawingState =
               \<lparr>strokes = [JObj [(''id'', JStr ''s1''), (''layer'', JNum 0)],
                           JObj [(''id'', JStr ''s2''), (''layer'', JNum 1)]],
                undoStack = [JObj [(''id'', JStr ''s3''), (''layer'', JNum 0)]]\<rparr>\<rparr> \<and>
   list_all json_value [JObj [(''id'', JStr ''s1''), (''layer'', JNum 0)],
                        JObj [(''id'', JStr ''s2''), (''layer'', JNum 1)]] \<and>
   room_strokes ''main''
     (readFile_settled ''main''
        (snd (getOrCreateRoom ''main''
           (RoomManager_new (disk (saveRoomState ''main'' Fulfilled Fulfilled drawn_room))))))
     = Some [JObj [(''id'', JStr ''s1''), (''layer'', JNum 0)],
             JObj [(''id'', JStr ''s2''), (''layer'', JNum 1)]]"
proof -
  have h1: "map_of (rooms drawn_room) ''main''
     = Some \<lparr>users = [],
             drawingState =
               \<lparr>strokes = [JObj [(''id'', JStr ''s1''), (''layer'', JNum 0)],
                           JObj [(''id'', JStr ''s2''), (''layer'', JNum 1)]],
                undoStack = [JObj [(''id'', JStr ''s3''), (''layer'', JNum 0)]]\<rparr>\<rparr>"
    by (simp add: drawn_room_def)
  have h2: "list_all json_value [JObj [(''id'', JStr ''s1''), (''layer'', JNum 0)],
                        JObj [(''id'', JStr ''s2''), (''layer'', JNum 1)]]"
    by simp
  show ?thesis
    using h1 h2 save_load_roundtrip[OF h1, of] by simp
qed

text \<open>
  Claim C10. \<open>toJSON\<close> keeps the strokes only, so \<open>fromJSON\<close> of it has the same strokes and
  an empty redo stack, and a redo on it returns \<open>null\<close>. Hence a room that is saved and then
  loaded by a new process has nothing to redo, whatever its redo stack held when it was
  saved.
\<close>

theorem serialization_drops_redo:
  "strokes (fromJSON (toJSON d)) = strokes d \<and>
   undoStack (fromJSON (toJSON d)) = [] \<and>
   redoLastStroke (fromJSON (toJSON d)) = (JNull, fromJSON (toJSON d)) \<and>
   (map_of (rooms st) roomId = Some r \<longrightarrow>
      map_option (\<lambda>r'. undoStack (drawingState r'))
        (map_of (rooms (readFile_settled roomId
              (snd (getOrCreateRoom roomId
                 (RoomManager_new (disk (saveRoomState roomId Fulfilled Fulfilled st))))))) roomId)
        = Some [] \<and>
      map_option (\<lambda>r'. fst (redoLastStroke (drawingState r')))
        (map_of (rooms (readFile_settled roomId
              (snd (getOrCreateRoom roomId
                 (RoomManager_new (disk (saveRoomState roomId Fulfilled Fulfilled st))))))) roomId)
        = Some JNull)"
proof -
  have a: "fromJSON (toJSON d) = \<lparr>strokes = strokes d, undoStack = []\<rparr>"
    by (simp add: toJSON_def fromJSON_strokes_array)
  have b: "map_of (rooms st) roomId = Some r \<Longrightarrow>
      map_of (rooms (readFile_settled roomId
              (snd (getOrCreateRoom roomId
                 (RoomManager_new (disk (saveRoomState roomId Fulfilled Fulfilled st))))))) roomId
      = Some \<lparr>users = [], drawingState =
           \<lparr>strokes = map (\<lambda>x. if x = JUndefined then JNull else json_clean x) (strokes (drawingState r)),
            undoStack = []\<rparr>\<rparr>"
    using restart_load[OF saveRoomState_disk, of st roomId r]
    by (simp add: fromJSON_strokes_array)
  show ?thesis
    using a b by (simp add: redoLastStroke_def)
qed

theorem serialization_drops_redo_witness:
  "map_of (rooms drawn_room) ''main''
     = Some \<lparr>users = [],
             drawingState =
               \<lparr>strokes = [JObj [(''id'', JStr ''s1''), (''layer'', JNum 0)],
                           JObj [(''id'', JStr ''s2''), (''layer'', JNum 1)]],
                undoStack = [JObj [(''id'', JStr ''s3''), (''layer'', JNum 0)]]\<rparr>\<rparr> \<and>
   map_option (\<lambda>r'. undoStack (drawingState r'))
     (map_of (rooms (readFile_settled ''main''
           (snd (getOrCreateRoom ''main''
              (RoomManager_new (disk (saveRoomState ''main'' Fulfilled Fulfilled drawn_room))))))) ''main'')
     = Some [] \<and>
   map_option (\<lambda>r'. fst (redoLastStroke (drawingState r')))
     (map_of (rooms (readFile_settled ''main''
           (snd (getOrCreateRoom ''main''
              (RoomManager_new (disk (saveRoomState ''main'' Fulfilled Fulfilled drawn_room))))))) ''main'')
     = Some JNull"
proof -
  have h: "map_of (rooms drawn_room) ''main''
     = Some \<lparr>users = [],
             drawingState =
               \<lparr>strokes = [JObj [(''id'', JStr ''s1''), (''layer'', JNum 0)],
                           JObj [(''id'', JStr ''s2''), (''layer'', JNum 1)]],
                undoStack = [JObj [(''id'', JStr ''s3''), (''layer'', JNum 0)]]\<rparr>\<rparr>"
    by (simp add: drawn_room_def)
  show ?thesis
    using h serialization_drops_redo[of _ drawn_room "''main''"] by simp
qed

end
